theory Spec2Isabelle
  imports Main
begin

section \<open>Data model\<close>

text \<open>
  The myFlix API (index.js, auth.js) is an Express application over two mongoose
  collections, \<open>Movies\<close> and \<open>Users\<close>. Every handler is modelled as a function from the
  store and the request to a response and the new store. Strings are byte lists; the
  source validates ASCII letters and digits, where bytes and UTF-16 units agree.
\<close>

datatype json =
    JNull
  | JBool bool
  | JNum int
  | JStr string
  | JArr "json list"
  | JObj "(string \<times> json) list"

text \<open>
  Modelled from the spec: the schemas of models.js, which is not among the sources. A
  User has a store-assigned identifier, Username, Password hash, Email, optional Birthday
  and the ordered FavoriteMovies; a Movie has an identifier, Title, Description, Genre,
  Director and image reference. Identifiers and dates are opaque values.
\<close>

record user =
  uid :: nat
  Username :: string
  Password :: string
  Email :: string
  Birthday :: "string option"
  FavoriteMovies :: "string list"

record director =
  Name :: string
  Bio :: string
  Birth :: string
  Death :: "string option"

record movie =
  mid :: string
  Title :: string
  Description :: string
  GenreName :: string
  GenreDescription :: string
  Director :: director
  ImagePath :: string

definition user_toJSON :: "user \<Rightarrow> (string \<times> json) list" where
  "user_toJSON u =
     [(''_id'', JNum (int (uid u))),
      (''Username'', JStr (Username u)),
      (''Password'', JStr (Password u)),
      (''Email'', JStr (Email u))]
     @ (case Birthday u of None \<Rightarrow> [] | Some b \<Rightarrow> [(''Birthday'', JStr b)])
     @ [(''FavoriteMovies'', JArr (map JStr (FavoriteMovies u)))]"

definition director_toJSON :: "director \<Rightarrow> json" where
  "director_toJSON dr =
     JObj ([(''Name'', JStr (Name dr)), (''Bio'', JStr (Bio dr)), (''Birth'', JStr (Birth dr))]
           @ (case Death dr of None \<Rightarrow> [] | Some x \<Rightarrow> [(''Death'', JStr x)]))"

definition movie_toJSON :: "movie \<Rightarrow> json" where
  "movie_toJSON m =
     JObj [(''_id'', JStr (mid m)),
           (''Title'', JStr (Title m)),
           (''Description'', JStr (Description m)),
           (''Genre'', JObj [(''Name'', JStr (GenreName m)),
                             (''Description'', JStr (GenreDescription m))]),
           (''Director'', director_toJSON (Director m)),
           (''ImagePath'', JStr (ImagePath m))]"

text \<open>\<open>res.json(doc)\<close> of a document that may be \<open>null\<close>.\<close>

definition json_of_user :: "user option \<Rightarrow> json" where
  "json_of_user r = (case r of None \<Rightarrow> JNull | Some u \<Rightarrow> JObj (user_toJSON u))"

definition json_of_movie :: "movie option \<Rightarrow> json" where
  "json_of_movie r = (case r of None \<Rightarrow> JNull | Some m \<Rightarrow> movie_toJSON m)"

section \<open>Errors, tokens, responses, requests\<close>

text \<open>
  \<open>StoreFailure\<close> is an error reported by mongoose (the callbacks' \<open>err\<close>, the promises'
  rejection); \<open>TypeError\<close> is a property read on \<open>null\<close>; \<open>ValidationError\<close> is a document
  rejected by the schema; \<open>CastError\<close> is an update whose value the schema cannot cast.
\<close>

datatype error = StoreFailure | TypeError | ValidationError | CastError

record token =
  alg :: string
  payload :: "(string \<times> json) list"
  signature :: string

text \<open>
  A response body is JSON (\<open>res.json\<close>), a text (\<open>res.send\<close>), the text
  \<open>'Error: ' + err\<close>, or the login answer \<open>{token, user}\<close>, whose token is kept
  structured instead of in its compact serialisation.
\<close>

datatype body =
    Json json
  | Text string
  | ErrorText error
  | JsonLogin token json

record response =
  status :: nat
  body :: body

definition res :: "nat \<Rightarrow> body \<Rightarrow> response" where
  "res st b = \<lparr>status = st, body = b\<rparr>"

datatype route =
    GET_movies
  | GET_movie string
  | GET_movies_genre string
  | GET_director string
  | POST_users
  | PUT_user string
  | POST_favorite string string
  | DELETE_favorite string string
  | GET_favorites string
  | DELETE_user string
  | GET_user string
  | POST_login

record request =
  route :: route
  bearer :: "token option"
  reqbody :: "string \<rightharpoonup> string"
  reqheaders :: "string \<rightharpoonup> string"
  reqquery :: "string \<rightharpoonup> string"

text \<open>\<open>req.params\<close>: the named segments of the matched path.\<close>

fun params :: "route \<Rightarrow> (string \<rightharpoonup> string)" where
  "params (GET_movie m) = [''MovieID'' \<mapsto> m]"
| "params (GET_movies_genre g) = [''genre'' \<mapsto> g]"
| "params (GET_director n) = [''name'' \<mapsto> n]"
| "params (PUT_user u) = [''Username'' \<mapsto> u]"
| "params (POST_favorite u m) = [''Username'' \<mapsto> u, ''MovieID'' \<mapsto> m]"
| "params (DELETE_favorite u m) = [''Username'' \<mapsto> u, ''MovieID'' \<mapsto> m]"
| "params (GET_favorites u) = [''Username'' \<mapsto> u]"
| "params (DELETE_user u) = [''Username'' \<mapsto> u]"
| "params (GET_user u) = [''Username'' \<mapsto> u]"
| "params _ = Map.empty"

text \<open>
  What the program takes from its libraries and from models.js, as parameters:
  \<open>Users.hashPassword\<close> and the password check of models.js (bcrypt), \<open>isEmail\<close> of
  validator.js, the \<open>xss\<close> filter, the HMAC-SHA-256 signature of jsonwebtoken (secret
  and claims to signature), and mongoose's cast of a text to a Date (the date, as the text
  it is rendered with, or nothing when the text is no date).
\<close>

record env =
  hashPassword :: "string \<Rightarrow> string"
  validatePassword :: "string \<Rightarrow> string \<Rightarrow> bool"
  isEmail :: "string \<Rightarrow> bool"
  xss :: "string \<Rightarrow> string"
  HS256 :: "string \<Rightarrow> (string \<times> json) list \<Rightarrow> string"
  castDate :: "string \<Rightarrow> string option"

section \<open>The document store\<close>

datatype db_op =
    MoviesFind
  | MoviesFindOne
  | UsersFindOne
  | UsersCreate
  | UsersFindOneAndUpdate
  | UsersFindOneAndRemove

text \<open>
  The store holds both collections, the next identifier it will assign, whether it is
  reachable, and the log of the operations requested from it, in order.
\<close>

record db =
  Users :: "user list"
  Movies :: "movie list"
  next_id :: nat
  up :: bool
  oplog :: "db_op list"

definition request_op :: "db_op \<Rightarrow> db \<Rightarrow> db" where
  "request_op c d = d\<lparr>oplog := oplog d @ [c]\<rparr>"

definition Movies_find :: "(movie \<Rightarrow> bool) \<Rightarrow> db \<Rightarrow> (error + movie list) \<times> db" where
  "Movies_find filt d =
     (if up d then Inr (filter filt (Movies d)) else Inl StoreFailure, request_op MoviesFind d)"

definition Movies_findOne :: "(movie \<Rightarrow> bool) \<Rightarrow> db \<Rightarrow> (error + movie option) \<times> db" where
  "Movies_findOne filt d =
     (if up d then Inr (find filt (Movies d)) else Inl StoreFailure, request_op MoviesFindOne d)"

definition Users_findOne :: "(user \<Rightarrow> bool) \<Rightarrow> db \<Rightarrow> (error + user option) \<times> db" where
  "Users_findOne filt d =
     (if up d then Inr (find filt (Users d)) else Inl StoreFailure, request_op UsersFindOne d)"

text \<open>
  Modelled from the spec: the Birthday of a User is a date. Mongoose casts the text it is
  given for the Birthday to a Date before the store is asked: no text and the empty text
  are no date (the Birthday stays unset), and a text that is no date is refused with a
  CastError.
\<close>

definition cast_Birthday :: "env \<Rightarrow> string option \<Rightarrow> error + string option" where
  "cast_Birthday env v =
     (case v of
        None \<Rightarrow> Inr None
      | Some b \<Rightarrow>
          if b = [] then Inr None
          else (case castDate env b of None \<Rightarrow> Inl CastError | Some date \<Rightarrow> Inr (Some date)))"

text \<open>
  Modelled from the spec: the required fields of the User schema of models.js, which are
  Username, Password and Email; \<open>create\<close> of a document without one of them, or with a
  Birthday that is no date, is rejected by the validation of the document.
\<close>

definition Users_create ::
  "env \<Rightarrow> string option \<Rightarrow> string \<Rightarrow> string option \<Rightarrow> string option \<Rightarrow> db
     \<Rightarrow> (error + user) \<times> db" where
  "Users_create env uname pw email bday d =
     (let d' = request_op UsersCreate d in
      case (uname, email, cast_Birthday env bday) of
        (Some n, Some e, Inr date) \<Rightarrow>
          if \<not> up d then (Inl StoreFailure, d')
          else
            (let u = \<lparr>uid = next_id d, Username = n, Password = pw, Email = e,
                      Birthday = date, FavoriteMovies = []\<rparr>
             in (Inr u, d'\<lparr>Users := Users d @ [u], next_id := Suc (next_id d)\<rparr>))
      | _ \<Rightarrow> (Inl ValidationError, d'))"

text \<open>The first document that matches the filter is the one updated or removed.\<close>

fun update_first :: "('a \<Rightarrow> bool) \<Rightarrow> ('a \<Rightarrow> 'a) \<Rightarrow> 'a list \<Rightarrow> 'a list" where
  "update_first filt f [] = []"
| "update_first filt f (x # xs) = (if filt x then f x # xs else x # update_first filt f xs)"

fun remove_first :: "('a \<Rightarrow> bool) \<Rightarrow> 'a list \<Rightarrow> 'a list" where
  "remove_first filt [] = []"
| "remove_first filt (x # xs) = (if filt x then xs else x # remove_first filt xs)"

text \<open>\<open>findOneAndUpdate\<close> with \<open>{new: true}\<close>: the answer is the document after the update.\<close>

definition Users_findOneAndUpdate ::
  "(user \<Rightarrow> bool) \<Rightarrow> (user \<Rightarrow> user) \<Rightarrow> db \<Rightarrow> (error + user option) \<times> db" where
  "Users_findOneAndUpdate filt upd d =
     (let d' = request_op UsersFindOneAndUpdate d in
      if \<not> up d then (Inl StoreFailure, d')
      else (Inr (map_option upd (find filt (Users d))),
            d'\<lparr>Users := update_first filt upd (Users d)\<rparr>))"

definition Users_findOneAndRemove :: "(user \<Rightarrow> bool) \<Rightarrow> db \<Rightarrow> (error + user option) \<times> db" where
  "Users_findOneAndRemove filt d =
     (let d' = request_op UsersFindOneAndRemove d in
      if \<not> up d then (Inl StoreFailure, d')
      else (Inr (find filt (Users d)), d'\<lparr>Users := remove_first filt (Users d)\<rparr>))"

text \<open>
  The update operators the handlers use: \<open>$set\<close>, \<open>$push\<close> and \<open>$pull\<close>. A \<open>$set\<close> stores
  the Birthday as the date its text was cast to.
\<close>

definition set_fields :: "(string \<rightharpoonup> string) \<Rightarrow> string option \<Rightarrow> user \<Rightarrow> user" where
  "set_fields updateObj date u =
     u\<lparr>Username := (case updateObj ''Username'' of None \<Rightarrow> Username u | Some v \<Rightarrow> v),
       Password := (case updateObj ''Password'' of None \<Rightarrow> Password u | Some v \<Rightarrow> v),
       Email := (case updateObj ''Email'' of None \<Rightarrow> Email u | Some v \<Rightarrow> v),
       Birthday := (case updateObj ''Birthday'' of None \<Rightarrow> Birthday u | Some v \<Rightarrow> date)\<rparr>"

text \<open>
  \<open>findOneAndUpdate\<close> with a \<open>$set\<close> document: the document is cast to the schema first,
  and a Birthday that is no date is reported to the callback as the error, with no user
  changed.
\<close>

definition Users_findOneAndUpdate_set ::
  "env \<Rightarrow> (user \<Rightarrow> bool) \<Rightarrow> (string \<rightharpoonup> string) \<Rightarrow> db \<Rightarrow> (error + user option) \<times> db" where
  "Users_findOneAndUpdate_set env filt updateObj d =
     (case cast_Birthday env (updateObj ''Birthday'') of
        Inl err \<Rightarrow> (Inl err, request_op UsersFindOneAndUpdate d)
      | Inr date \<Rightarrow> Users_findOneAndUpdate filt (set_fields updateObj date) d)"

definition push_favorite :: "string \<Rightarrow> user \<Rightarrow> user" where
  "push_favorite m u = u\<lparr>FavoriteMovies := FavoriteMovies u @ [m]\<rparr>"

definition pull_favorite :: "string \<Rightarrow> user \<Rightarrow> user" where
  "pull_favorite m u = u\<lparr>FavoriteMovies := filter (\<lambda>x. x \<noteq> m) (FavoriteMovies u)\<rparr>"

section \<open>Input validation (express-validator)\<close>

text \<open>
  \<open>check(field, message)\<close> looks the field up in every location of the request, in the
  order body, cookies, headers, params, query (header names in lower case; no cookie
  parser is installed, so \<open>req.cookies\<close> is undefined). The instances that have a value
  are validated, each of them; when no location has the field, the first instance (the
  body's, with no value) is validated, as the empty string. An error names the field as
  its location has it, which for a header is the lower-case name.
\<close>

record verror =
  err_value :: "string option"
  err_msg :: string
  err_param :: string
  err_location :: string

definition verror_toJSON :: "verror \<Rightarrow> json" where
  "verror_toJSON e =
     JObj ((case err_value e of None \<Rightarrow> [] | Some v \<Rightarrow> [(''value'', JStr v)])
           @ [(''msg'', JStr (err_msg e)), (''param'', JStr (err_param e)),
              (''location'', JStr (err_location e))])"

definition isUpper :: "char \<Rightarrow> bool" where
  "isUpper c = (let n = (of_char c :: nat) in 65 \<le> n \<and> n \<le> 90)"

definition isLower :: "char \<Rightarrow> bool" where
  "isLower c = (let n = (of_char c :: nat) in 97 \<le> n \<and> n \<le> 122)"

definition isDigit :: "char \<Rightarrow> bool" where
  "isDigit c = (let n = (of_char c :: nat) in 48 \<le> n \<and> n \<le> 57)"

text \<open>An upper-case ASCII letter and its lower-case form differ in bit 5 only.\<close>

fun toLowerCase_char :: "char \<Rightarrow> char" where
  "toLowerCase_char (Char b0 b1 b2 b3 b4 b5 b6 b7) =
     (if isUpper (Char b0 b1 b2 b3 b4 b5 b6 b7) then Char b0 b1 b2 b3 b4 True b6 b7
      else Char b0 b1 b2 b3 b4 b5 b6 b7)"

definition toLowerCase :: "string \<Rightarrow> string" where
  "toLowerCase s = map toLowerCase_char s"

text \<open>An instance of a field: its location, its name there, and its value if it has one.\<close>

definition select_instances ::
  "request \<Rightarrow> string \<Rightarrow> (string \<times> string \<times> string option) list" where
  "select_instances req field =
     (let instances =
            [(''body'', field, reqbody req field),
             (''cookies'', field, None),
             (''headers'', toLowerCase field, reqheaders req (toLowerCase field)),
             (''params'', field, params (route req) field),
             (''query'', field, reqquery req field)];
          withValue = filter (\<lambda>(l, p, v). v \<noteq> None) instances
      in if withValue \<noteq> [] then withValue else [hd instances])"

text \<open>The validators convert the value to a string first; no value is the empty string.\<close>

definition toString :: "string option \<Rightarrow> string" where
  "toString v = (case v of None \<Rightarrow> [] | Some s \<Rightarrow> s)"

definition check :: "request \<Rightarrow> string \<Rightarrow> string \<Rightarrow> (string \<Rightarrow> bool) \<Rightarrow> verror list" where
  "check req field message valid =
     map (\<lambda>(l, p, v). \<lparr>err_value = v, err_msg = message, err_param = p, err_location = l\<rparr>)
         (filter (\<lambda>(l, p, v). \<not> valid (toString v)) (select_instances req field))"

definition isLength_min :: "nat \<Rightarrow> string \<Rightarrow> bool" where
  "isLength_min n s = (n \<le> length s)"

text \<open>\<open>isAlphanumeric()\<close> with its default locale: the pattern \<open>/^[0-9A-Z]+$/i\<close>.\<close>

definition isAlphanumeric :: "string \<Rightarrow> bool" where
  "isAlphanumeric s = (s \<noteq> [] \<and> list_all (\<lambda>c. isDigit c \<or> isUpper c \<or> isLower c) s)"

definition isEmpty :: "string \<Rightarrow> bool" where
  "isEmpty s = (s = [])"

text \<open>
  The four checks of \<open>app.post('/users')\<close> and of \<open>app.put('/users/:Username')\<close> (the source
  writes the same array twice), followed by \<open>validationResult(req).array()\<close>: the errors
  of all the checks, in the order of the checks.
\<close>

definition validationResult :: "env \<Rightarrow> request \<Rightarrow> verror list" where
  "validationResult env req =
     check req ''Username'' ''Username is required'' (isLength_min 5)
     @ check req ''Username'' ''Username contains non alphanumeric characters - not allowed.''
         isAlphanumeric
     @ check req ''Password'' ''Password is required'' (\<lambda>s. \<not> isEmpty s)
     @ check req ''Email'' ''Email does not appear to be valid'' (isEmail env)"

definition validation_failed :: "verror list \<Rightarrow> response" where
  "validation_failed errors = res 422 (Json (JObj [(''errors'', JArr (map verror_toJSON errors))]))"

section \<open>Tokens (auth.js, jsonwebtoken)\<close>

definition jwtSecret :: string where
  "jwtSecret = ''your_jwt_secret''"

definition seven_days :: nat where
  "seven_days = 7 * 24 * 60 * 60"

text \<open>
  \<open>jwt.sign(payload, secret, {subject, expiresIn, algorithm: 'HS256'})\<close> at the time \<open>now\<close>,
  in seconds: the claims are the payload's own fields, then \<open>iat\<close>, \<open>exp\<close> and \<open>sub\<close>. The
  library refuses a payload that has an \<open>exp\<close> or a \<open>sub\<close> field already; the payloads
  signed here have none (lemma \<open>user_toJSON_keys\<close>).
\<close>

definition jwt_sign ::
  "env \<Rightarrow> nat \<Rightarrow> (string \<times> json) list \<Rightarrow> string \<Rightarrow> string \<Rightarrow> nat \<Rightarrow> token" where
  "jwt_sign env now obj secret subject expiresIn =
     (let claims = obj @ [(''iat'', JNum (int now)), (''exp'', JNum (int (now + expiresIn))),
                             (''sub'', JStr subject)]
      in \<lparr>alg = ''HS256'', payload = claims, signature = HS256 env secret claims\<rparr>)"

definition generateJWTToken :: "env \<Rightarrow> nat \<Rightarrow> user \<Rightarrow> token" where
  "generateJWTToken env now u = jwt_sign env now (user_toJSON u) jwtSecret (Username u) seven_days"

text \<open>
  Modelled from the spec: the Token Verifier, which is the JWT strategy of passport.js,
  a file that is not among the sources. It checks the signature against the same secret
  and checks that the expiry has not passed; the expiry has passed once the clock reaches
  \<open>exp\<close>, as in the jsonwebtoken library that issued the token.
\<close>

definition verifyToken :: "env \<Rightarrow> nat \<Rightarrow> token \<Rightarrow> bool" where
  "verifyToken env now t =
     (alg t = ''HS256''
      \<and> signature t = HS256 env jwtSecret (payload t)
      \<and> (case map_of (payload t) ''exp'' of
            None \<Rightarrow> True
          | Some (JNum e) \<Rightarrow> int now < e
          | Some _ \<Rightarrow> False))"

text \<open>
  \<open>passport.authenticate('jwt', {session: false})\<close> as a route middleware: without a
  verified bearer token it answers 401 and the handler is not called. A request with no
  token, or one that does not parse, has \<open>bearer = None\<close>.
\<close>

definition jwt_verified :: "env \<Rightarrow> nat \<Rightarrow> request \<Rightarrow> bool" where
  "jwt_verified env now req = (case bearer req of None \<Rightarrow> False | Some t \<Rightarrow> verifyToken env now t)"

definition passport_authenticate_jwt ::
  "env \<Rightarrow> nat \<Rightarrow> request \<Rightarrow> (db \<Rightarrow> response \<times> db) \<Rightarrow> db \<Rightarrow> response \<times> db" where
  "passport_authenticate_jwt env now req handler d =
     (if jwt_verified env now req then handler d else (res 401 (Text ''Unauthorized''), d))"

text \<open>
  Modelled from the spec: the Credential Validator, which is the local strategy of
  passport.js. It looks the user up by Username and fails when there is none or when the
  password does not match the stored hash. The answer is the callback's \<open>(error, user)\<close>: \<open>Inl\<close> an error,
  \<open>Inr None\<close> for \<open>user = false\<close>, \<open>Inr (Some u)\<close> the authenticated user. The strategy
  reads the credentials from the body, else from the query, and fails without a lookup
  when one of them is missing or empty.
\<close>

definition credential :: "request \<Rightarrow> string \<Rightarrow> string option" where
  "credential req field =
     (case reqbody req field of
        None \<Rightarrow> reqquery req field
      | Some v \<Rightarrow> if v \<noteq> [] then Some v else reqquery req field)"

definition local_strategy :: "env \<Rightarrow> string \<Rightarrow> string \<Rightarrow> db \<Rightarrow> (error + user option) \<times> db" where
  "local_strategy env username password d =
     (case Users_findOne (\<lambda>u. Username u = username) d of
        (Inl e, d') \<Rightarrow> (Inl e, d')
      | (Inr None, d') \<Rightarrow> (Inr None, d')
      | (Inr (Some u), d') \<Rightarrow>
          (if validatePassword env password (Password u) then Inr (Some u) else Inr None, d'))"

definition passport_authenticate_local :: "env \<Rightarrow> request \<Rightarrow> db \<Rightarrow> (error + user option) \<times> db" where
  "passport_authenticate_local env req d =
     (case (credential req ''Username'', credential req ''Password'') of
        (Some username, Some password) \<Rightarrow>
          if username = [] \<or> password = [] then (Inr None, d)
          else local_strategy env username password d
      | _ \<Rightarrow> (Inr None, d))"

section \<open>The handlers (index.js, auth.js)\<close>

text \<open>
  A promise chain \<open>op.then(f).catch(g)\<close> is the case distinction on the operation's
  answer; an exception thrown inside \<open>f\<close> reaches \<open>g\<close> as well. \<open>res.json\<close> and
  \<open>res.send\<close> without \<open>res.status\<close> answer 200.
\<close>

definition get_movies :: "db \<Rightarrow> response \<times> db" where
  "get_movies d =
     (case Movies_find (\<lambda>m. True) d of
        (Inr movies, d') \<Rightarrow> (res 201 (Json (JArr (map movie_toJSON movies))), d')
      | (Inl err, d') \<Rightarrow> (res 500 (ErrorText err), d'))"

definition get_movie :: "string \<Rightarrow> db \<Rightarrow> response \<times> db" where
  "get_movie MovieID d =
     (case Movies_findOne (\<lambda>m. mid m = MovieID) d of
        (Inr movie, d') \<Rightarrow> (res 200 (Json (json_of_movie movie)), d')
      | (Inl err, d') \<Rightarrow> (res 500 (ErrorText err), d'))"

definition get_movies_genre :: "string \<Rightarrow> db \<Rightarrow> response \<times> db" where
  "get_movies_genre genre d =
     (case Movies_find (\<lambda>m. GenreName m = genre) d of
        (Inr movies, d') \<Rightarrow> (res 200 (Json (JArr (map movie_toJSON movies))), d')
      | (Inl err, d') \<Rightarrow> (res 500 (ErrorText err), d'))"

text \<open>
  \<open>res.json(movies.Director)\<close>: when \<open>findOne\<close> answers \<open>null\<close>, reading \<open>Director\<close>
  throws a TypeError inside \<open>then\<close>, which the \<open>catch\<close> turns into the 500 answer.
\<close>

definition get_director :: "string \<Rightarrow> db \<Rightarrow> response \<times> db" where
  "get_director name d =
     (case Movies_findOne (\<lambda>m. Name (Director m) = name) d of
        (Inr (Some movies), d') \<Rightarrow> (res 200 (Json (director_toJSON (Director movies))), d')
      | (Inr None, d') \<Rightarrow> (res 500 (ErrorText TypeError), d')
      | (Inl err, d') \<Rightarrow> (res 500 (ErrorText err), d'))"

text \<open>
  The last middleware of the application answers an exception thrown by a handler
  itself. \<open>Users.hashPassword\<close> throws on an undefined password, which happens when the
  Password passed the checks in another location than the body.
\<close>

definition uncaught :: response where
  "uncaught = res 500 (Text ''Something didn't work!'')"

text \<open>String concatenation with a value that may be undefined.\<close>

definition js_string :: "string option \<Rightarrow> string" where
  "js_string v = (case v of None \<Rightarrow> ''undefined'' | Some s \<Rightarrow> s)"

text \<open>
  \<open>app.post('/users')\<close>. The filter \<open>{Username: req.body.Username}\<close> with an undefined
  value matches no user, every user having a Username.
\<close>

definition post_users :: "env \<Rightarrow> request \<Rightarrow> db \<Rightarrow> response \<times> db" where
  "post_users env req d =
     (let errors = validationResult env req in
      if errors \<noteq> [] then (validation_failed errors, d)
      else case reqbody req ''Password'' of
        None \<Rightarrow> (uncaught, d)
      | Some pw \<Rightarrow>
          (let hashedPassword = hashPassword env pw in
           case Users_findOne (\<lambda>u. Some (Username u) = reqbody req ''Username'') d of
             (Inl error, d') \<Rightarrow> (res 500 (ErrorText error), d')
           | (Inr (Some user), d') \<Rightarrow>
               (res 400 (Text (js_string (reqbody req ''Username'') @ '' already exists'')), d')
           | (Inr None, d') \<Rightarrow>
               (case Users_create env (reqbody req ''Username'') hashedPassword
                       (reqbody req ''Email'') (reqbody req ''Birthday'') d' of
                  (Inl error, d'') \<Rightarrow> (res 500 (ErrorText error), d'')
                | (Inr user, d'') \<Rightarrow>
                    (res 201 (Json (JObj ([(''Username'', JStr (Username user)),
                                            (''Email'', JStr (Email user))]
                                          @ (case Birthday user of None \<Rightarrow> []
                                             | Some b \<Rightarrow> [(''Birthday'', JStr b)])))),
                     d''))))"

text \<open>\<open>if (req.body.F) { updateObj.F = v }\<close>: a field that is present and not empty.\<close>

definition assign_if :: "string option \<Rightarrow> string \<Rightarrow> string \<Rightarrow> (string \<rightharpoonup> string) \<Rightarrow> (string \<rightharpoonup> string)" where
  "assign_if cond key v updateObj =
     (case cond of None \<Rightarrow> updateObj | Some s \<Rightarrow> if s \<noteq> [] then updateObj(key \<mapsto> v) else updateObj)"

definition build_updateObj :: "request \<Rightarrow> string \<Rightarrow> (string \<rightharpoonup> string)" where
  "build_updateObj req hashedPassword =
     (let updateObj = Map.empty;
          updateObj = assign_if (reqbody req ''Username'') ''Username''
                        (toString (reqbody req ''Username'')) updateObj;
          updateObj = assign_if (reqbody req ''Password'') ''Password'' hashedPassword updateObj;
          updateObj = assign_if (reqbody req ''Email'') ''Email''
                        (toString (reqbody req ''Email'')) updateObj;
          updateObj = assign_if (reqbody req ''Birthday'') ''Birthday''
                        (toString (reqbody req ''Birthday'')) updateObj
      in updateObj)"

text \<open>
  The body of \<open>app.put('/users/:Username')\<close>. Its checks run before the token is
  verified, and they only record their errors, which the handler reads here.
\<close>

definition put_user :: "env \<Rightarrow> string \<Rightarrow> request \<Rightarrow> db \<Rightarrow> response \<times> db" where
  "put_user env uname req d =
     (let errors = validationResult env req in
      if errors \<noteq> [] then (validation_failed errors, d)
      else case reqbody req ''Password'' of
        None \<Rightarrow> (uncaught, d)
      | Some pw \<Rightarrow>
          (let hashedPassword = hashPassword env pw;
               updateObj = build_updateObj req hashedPassword
           in case Users_findOneAndUpdate_set env (\<lambda>u. Username u = uname) updateObj d of
                (Inl err, d') \<Rightarrow> (res 500 (ErrorText err), d')
              | (Inr updatedUser, d') \<Rightarrow> (res 201 (Json (json_of_user updatedUser)), d')))"

definition post_favorite :: "string \<Rightarrow> string \<Rightarrow> db \<Rightarrow> response \<times> db" where
  "post_favorite uname MovieID d =
     (case Users_findOneAndUpdate (\<lambda>u. Username u = uname) (push_favorite MovieID) d of
        (Inl err, d') \<Rightarrow> (res 500 (ErrorText err), d')
      | (Inr updatedUser, d') \<Rightarrow> (res 200 (Json (json_of_user updatedUser)), d'))"

definition delete_favorite :: "string \<Rightarrow> string \<Rightarrow> db \<Rightarrow> response \<times> db" where
  "delete_favorite uname MovieID d =
     (case Users_findOneAndUpdate (\<lambda>u. Username u = uname) (pull_favorite MovieID) d of
        (Inl err, d') \<Rightarrow> (res 500 (ErrorText err), d')
      | (Inr updatedUser, d') \<Rightarrow> (res 200 (Json (json_of_user updatedUser)), d'))"

text \<open>\<open>user.FavoriteMovies\<close> of \<open>null\<close> throws inside \<open>then\<close>, as in \<open>get_director\<close>.\<close>

definition get_favorites :: "string \<Rightarrow> db \<Rightarrow> response \<times> db" where
  "get_favorites uname d =
     (case Users_findOne (\<lambda>u. Username u = uname) d of
        (Inr (Some user), d') \<Rightarrow>
          (res 201 (Json (JObj [(''FavoriteMovies'', JArr (map JStr (FavoriteMovies user)))])), d')
      | (Inr None, d') \<Rightarrow> (res 500 (ErrorText TypeError), d')
      | (Inl err, d') \<Rightarrow> (res 500 (ErrorText err), d'))"

definition delete_user :: "string \<Rightarrow> db \<Rightarrow> response \<times> db" where
  "delete_user uname d =
     (case Users_findOneAndRemove (\<lambda>u. Username u = uname) d of
        (Inr None, d') \<Rightarrow> (res 400 (Text (uname @ '' was not found'')), d')
      | (Inr (Some user), d') \<Rightarrow> (res 200 (Text (uname @ '' was deleted.'')), d')
      | (Inl err, d') \<Rightarrow> (res 500 (ErrorText err), d'))"

definition get_user :: "string \<Rightarrow> db \<Rightarrow> response \<times> db" where
  "get_user uname d =
     (case Users_findOne (\<lambda>u. Username u = uname) d of
        (Inr user, d') \<Rightarrow> (res 200 (Json (json_of_user user)), d')
      | (Inl err, d') \<Rightarrow> (res 500 (ErrorText err), d'))"

text \<open>
  \<open>router.post('/login')\<close> of auth.js. In the failure answer \<open>user: user\<close> is \<open>false\<close> after
  failed credentials and undefined, hence left out, after an error. \<open>req.login\<close> with
  \<open>{session: false}\<close> stores the user on the request and reports no error. The Birthday is
  an opaque string here; \<open>xss\<close> of an undefined value is the empty string.
\<close>

definition login :: "env \<Rightarrow> nat \<Rightarrow> request \<Rightarrow> db \<Rightarrow> response \<times> db" where
  "login env now req d =
     (case passport_authenticate_local env req d of
        (Inl error, d') \<Rightarrow>
          (res 400 (Json (JObj [(''message'', JStr ''Something is not right'')])), d')
      | (Inr None, d') \<Rightarrow>
          (res 400 (Json (JObj [(''message'', JStr ''Something is not right''),
                                (''user'', JBool False)])), d')
      | (Inr (Some user), d') \<Rightarrow>
          (let token = generateJWTToken env now user in
           (res 200 (JsonLogin token
              (JObj [(''Username'', JStr (xss env (Username user))),
                     (''FavoriteMovies'', JArr (map JStr (FavoriteMovies user))),
                     (''Email'', JStr (xss env (Email user))),
                     (''Birthday'', JStr (xss env (toString (Birthday user))))])), d')))"

text \<open>
  The routes as index.js registers them. \<open>/users/:Username\<close> under GET has its
  \<open>passport.authenticate\<close> commented out; \<open>/users\<close> under POST and \<open>/login\<close> have none.
\<close>

definition handle :: "env \<Rightarrow> nat \<Rightarrow> request \<Rightarrow> db \<Rightarrow> response \<times> db" where
  "handle env now req d =
     (case route req of
        GET_movies \<Rightarrow> passport_authenticate_jwt env now req get_movies d
      | GET_movie MovieID \<Rightarrow> passport_authenticate_jwt env now req (get_movie MovieID) d
      | GET_movies_genre genre \<Rightarrow> passport_authenticate_jwt env now req (get_movies_genre genre) d
      | GET_director name \<Rightarrow> passport_authenticate_jwt env now req (get_director name) d
      | POST_users \<Rightarrow> post_users env req d
      | PUT_user uname \<Rightarrow> passport_authenticate_jwt env now req (put_user env uname req) d
      | POST_favorite uname MovieID \<Rightarrow>
          passport_authenticate_jwt env now req (post_favorite uname MovieID) d
      | DELETE_favorite uname MovieID \<Rightarrow>
          passport_authenticate_jwt env now req (delete_favorite uname MovieID) d
      | GET_favorites uname \<Rightarrow> passport_authenticate_jwt env now req (get_favorites uname) d
      | DELETE_user uname \<Rightarrow> passport_authenticate_jwt env now req (delete_user uname) d
      | GET_user uname \<Rightarrow> get_user uname d
      | POST_login \<Rightarrow> login env now req d)"

section \<open>Violations of a check\<close>

text \<open>
  A request violates a rule on a field when its body carries a value for the field that
  the rule rejects, or when no location of the request carries the field and the rule
  rejects the empty string.
\<close>

definition violates :: "request \<Rightarrow> string \<Rightarrow> (string \<Rightarrow> bool) \<Rightarrow> bool" where
  "violates req field valid =
     (case reqbody req field of
        Some v \<Rightarrow> \<not> valid v
      | None \<Rightarrow> reqheaders req (toLowerCase field) = None \<and> params (route req) field = None
                \<and> reqquery req field = None \<and> \<not> valid [])"

section \<open>Example values\<close>

text \<open>
  A concrete environment, store and token, on which the theorems below are instantiated.
  The library functions are stand-ins that agree with the real ones on the values used.
\<close>

definition example_env :: env where
  "example_env =
     \<lparr>hashPassword = (\<lambda>p. ''hashed:'' @ p),
      validatePassword = (\<lambda>p h. h = ''hashed:'' @ p),
      isEmail = (\<lambda>s. CHR ''@'' \<in> set s),
      xss = (\<lambda>s. s),
      HS256 = (\<lambda>secret claims. secret @ concat (map fst claims)),
      castDate = (\<lambda>s. if length s = 10 \<and> list_all (\<lambda>c. isDigit c \<or> c = CHR ''-'') s
                       then Some (s @ ''T00:00:00.000Z'') else None)\<rparr>"

definition alice :: user where
  "alice = \<lparr>uid = 1, Username = ''alice1'', Password = ''hashed:secret123'',
            Email = ''alice@example.com'', Birthday = None, FavoriteMovies = [''abc123'']\<rparr>"

definition psycho :: movie where
  "psycho = \<lparr>mid = ''abc123'', Title = ''Psycho'', Description = ''A motel.'',
             GenreName = ''Thriller'', GenreDescription = ''Suspense.'',
             Director = \<lparr>Name = ''Alfred Hitchcock'', Bio = ''English director.'',
                         Birth = ''1899'', Death = Some ''1980''\<rparr>,
             ImagePath = ''psycho.png''\<rparr>"

definition example_db :: db where
  "example_db = \<lparr>Users = [alice], Movies = [psycho], next_id = 2, up = True, oplog = []\<rparr>"

definition alice_token :: token where
  "alice_token = generateJWTToken example_env 1000 alice"

definition example_request :: "route \<Rightarrow> token option \<Rightarrow> (string \<rightharpoonup> string) \<Rightarrow> request" where
  "example_request r t b =
     \<lparr>route = r, bearer = t, reqbody = b, reqheaders = Map.empty, reqquery = Map.empty\<rparr>"

section \<open>Properties\<close>

subsection \<open>The store\<close>

lemma update_first_no_match: "find filt xs = None \<Longrightarrow> update_first filt f xs = xs"
  by (induction xs) (auto split: if_splits)

lemma update_first_fixed: "find filt xs = Some x \<Longrightarrow> f x = x \<Longrightarrow> update_first filt f xs = xs"
  by (induction xs) (auto split: if_splits)

lemma update_first_const:
  "find filt xs = Some x \<Longrightarrow> update_first filt f xs = update_first filt (\<lambda>_. f x) xs"
  by (induction xs) (auto split: if_splits)

lemma pull_favorite_absent: "m \<notin> set (FavoriteMovies u) \<Longrightarrow> pull_favorite m u = u"
proof -
  assume "m \<notin> set (FavoriteMovies u)"
  then have "filter (\<lambda>x. x \<noteq> m) (FavoriteMovies u) = FavoriteMovies u"
    by (simp add: filter_id_conv) blast
  then show ?thesis by (simp add: pull_favorite_def)
qed

subsection \<open>The checks\<close>

lemma check_body_value:
  assumes "reqbody req f = Some v" "\<not> valid v"
  shows "\<lparr>err_value = Some v, err_msg = msg, err_param = f, err_location = ''body''\<rparr>
           \<in> set (check req f msg valid)"
  using assms by (simp add: check_def select_instances_def toString_def Let_def image_iff)

lemma check_absent:
  assumes "reqbody req f = None" "reqheaders req (toLowerCase f) = None"
    "params (route req) f = None" "reqquery req f = None" "\<not> valid []"
  shows "check req f msg valid =
           [\<lparr>err_value = None, err_msg = msg, err_param = f, err_location = ''body''\<rparr>]"
  using assms by (simp add: check_def select_instances_def toString_def)

lemma check_param_value:
  assumes "params (route req) f = Some v" "\<not> valid v"
  shows "\<lparr>err_value = Some v, err_msg = msg, err_param = f, err_location = ''params''\<rparr>
           \<in> set (check req f msg valid)"
  using assms by (simp add: check_def select_instances_def toString_def Let_def image_iff)

text \<open>
  A check passes when the body's value and the path's value are valid, one of them at
  least is there, and neither a header nor the query has the field.
\<close>

lemma check_passes:
  assumes "reqheaders req (toLowerCase f) = None" "reqquery req f = None"
    and "case reqbody req f of None \<Rightarrow> params (route req) f \<noteq> None | Some v \<Rightarrow> valid v"
    and "case params (route req) f of None \<Rightarrow> True | Some v \<Rightarrow> valid v"
  shows "check req f msg valid = []"
  using assms
  by (cases "reqbody req f"; cases "params (route req) f")
     (simp_all add: check_def select_instances_def toString_def)

lemma violates_reported:
  assumes "violates req f valid"
  shows "\<lparr>err_value = reqbody req f, err_msg = msg, err_param = f, err_location = ''body''\<rparr>
           \<in> set (check req f msg valid)"
proof (cases "reqbody req f")
  case None
  with assms have "check req f msg valid =
      [\<lparr>err_value = None, err_msg = msg, err_param = f, err_location = ''body''\<rparr>]"
    by (intro check_absent) (simp_all add: violates_def)
  with None show ?thesis by simp
next
  case (Some v)
  with assms have "\<not> valid v" by (simp add: violates_def)
  with Some check_body_value [of req f v valid msg] show ?thesis by simp
qed



lemma lower_fields:
  "toLowerCase ''Username'' = ''username''"
  "toLowerCase ''Password'' = ''password''"
  "toLowerCase ''Email'' = ''email''"
  by (simp_all add: toLowerCase_def isUpper_def)

text \<open>A Username with a character that is no letter or digit fails \<open>isAlphanumeric\<close>.\<close>

lemma isAlphanumeric_chars:
  "isAlphanumeric s \<Longrightarrow> c \<in> set s \<Longrightarrow> isDigit c \<or> isUpper c \<or> isLower c"
  by (auto simp: isAlphanumeric_def list_all_iff)

text \<open>The update object of a request whose Password and Email are in the body.\<close>

lemma build_updateObj_Birthday:
  "build_updateObj req h ''Birthday'' =
     (case reqbody req ''Birthday'' of None \<Rightarrow> None | Some b \<Rightarrow> if b = [] then None else Some b)"
  by (simp add: build_updateObj_def assign_if_def toString_def Let_def split: option.splits)

lemma set_fields_build_updateObj:
  assumes pw: "reqbody req ''Password'' = Some pw" "pw \<noteq> []"
    and e: "reqbody req ''Email'' = Some e" "e \<noteq> []"
    and n: "\<And>n. reqbody req ''Username'' = Some n \<Longrightarrow> n \<noteq> []"
  shows "set_fields (build_updateObj req h) date u =
           u\<lparr>Username := (case reqbody req ''Username'' of None \<Rightarrow> Username u | Some n \<Rightarrow> n),
             Password := h,
             Email := e,
             Birthday := (case reqbody req ''Birthday'' of
                            None \<Rightarrow> Birthday u
                          | Some b \<Rightarrow> if b = [] then Birthday u else date)\<rparr>"
  using assms
  by (cases "reqbody req ''Username''"; cases "reqbody req ''Birthday''")
     (simp_all add: set_fields_def build_updateObj_def assign_if_def toString_def)

subsection \<open>Tokens\<close>

text \<open>The payloads signed by \<open>generateJWTToken\<close> have no \<open>iat\<close>, \<open>exp\<close> or \<open>sub\<close> of their own.\<close>

lemma user_toJSON_keys:
  "map_of (user_toJSON u) ''iat'' = None"
  "map_of (user_toJSON u) ''exp'' = None"
  "map_of (user_toJSON u) ''sub'' = None"
  by (simp_all add: user_toJSON_def split: option.splits)

lemma user_toJSON_Password: "map_of (user_toJSON u) ''Password'' = Some (JStr (Password u))"
  by (simp add: user_toJSON_def)

lemma generateJWTToken_exp:
  "map_of (payload (generateJWTToken env T u)) ''exp'' = Some (JNum (int (T + seven_days)))"
  by (simp add: generateJWTToken_def jwt_sign_def Let_def map_add_def user_toJSON_keys)

lemma generateJWTToken_signed:
  "alg (generateJWTToken env T u) = ''HS256''"
  "signature (generateJWTToken env T u) = HS256 env jwtSecret (payload (generateJWTToken env T u))"
  by (simp_all add: generateJWTToken_def jwt_sign_def Let_def)

lemma verifyToken_generateJWTToken:
  "verifyToken env t (generateJWTToken env T u) \<longleftrightarrow> t < T + seven_days"
proof -
  have "int t < int (T + seven_days) \<longleftrightarrow> t < T + seven_days"
    by (rule of_nat_less_iff)
  then show ?thesis
    by (simp only: verifyToken_def generateJWTToken_exp generateJWTToken_signed) simp
qed

lemma alice_token_verified: "t < 605800 \<Longrightarrow> verifyToken example_env t alice_token"
  by (simp add: alice_token_def verifyToken_generateJWTToken seven_days_def)

lemma alice_request_verified:
  "t < 605800 \<Longrightarrow> jwt_verified example_env t (example_request r (Some alice_token) b)"
  by (simp add: jwt_verified_def example_request_def alice_token_verified)

subsection \<open>The authorization gate\<close>

text \<open>
  C2. On every route other than \<open>POST /users\<close>, \<open>POST /login\<close> and
  \<open>GET /users/:Username\<close>, a request whose bearer token is not verified is answered 401
  and the store is returned as it was, its operation log included: the handler has not
  run and no operation has been requested from the store.
\<close>

theorem unverified_request_rejected:
  assumes "\<not> jwt_verified env now req"
    and "route req \<noteq> POST_users"
    and "route req \<noteq> POST_login"
    and "\<forall>u. route req \<noteq> GET_user u"
  shows "handle env now req d = (res 401 (Text ''Unauthorized''), d)"
  using assms by (cases "route req") (simp_all add: handle_def passport_authenticate_jwt_def)

text \<open>An expired token on \<open>DELETE /users/alice1\<close>.\<close>

theorem unverified_request_rejected_witness:
  "\<not> jwt_verified example_env 700000
       (example_request (DELETE_user ''alice1'') (Some alice_token) Map.empty)
   \<and> route (example_request (DELETE_user ''alice1'') (Some alice_token) Map.empty) \<noteq> POST_users
   \<and> route (example_request (DELETE_user ''alice1'') (Some alice_token) Map.empty) \<noteq> POST_login
   \<and> (\<forall>u. route (example_request (DELETE_user ''alice1'') (Some alice_token) Map.empty)
           \<noteq> GET_user u)
   \<and> handle example_env 700000
        (example_request (DELETE_user ''alice1'') (Some alice_token) Map.empty) example_db
      = (res 401 (Text ''Unauthorized''), example_db)"
proof -
  let ?req = "example_request (DELETE_user ''alice1'') (Some alice_token) Map.empty"
  have v: "\<not> jwt_verified example_env 700000 ?req"
    by (simp add: jwt_verified_def example_request_def alice_token_def
        verifyToken_generateJWTToken seven_days_def)
  have r: "route ?req \<noteq> POST_users" "route ?req \<noteq> POST_login" "\<forall>u. route ?req \<noteq> GET_user u"
    by (simp_all add: example_request_def)
  from unverified_request_rejected [OF v r, of example_db] v r show ?thesis by simp
qed

subsection \<open>Registration\<close>




text \<open>
  C5. A registration with a Username that a user of the store already has leaves the
  users as they are and requests at most the lookup from the store, never a create or an
  update. When it passes the checks, with its Password in the body, and the store
  answers, the answer is 400 with the text \<open><Username> already exists\<close>.
\<close>

theorem duplicate_registration_rejected:
  assumes r: "route req = POST_users"
    and u: "reqbody req ''Username'' = Some uname"
    and present: "uname \<in> Username ` set (Users d)"
  shows "Users (snd (handle env now req d)) = Users d
         \<and> (oplog (snd (handle env now req d)) = oplog d
              \<or> oplog (snd (handle env now req d)) = oplog d @ [UsersFindOne])
         \<and> (validationResult env req = [] \<and> reqbody req ''Password'' \<noteq> None \<and> up d \<longrightarrow>
              fst (handle env now req d) = res 400 (Text (uname @ '' already exists'')))"
proof -
  from present obtain existing
    where "find (\<lambda>x. Some (Username x) = Some uname) (Users d) = Some existing"
    by (cases "find (\<lambda>x. Some (Username x) = Some uname) (Users d)") (auto simp: find_None_iff)
  then show ?thesis using r u
    by (auto simp: handle_def post_users_def Users_findOne_def request_op_def js_string_def Let_def
        split: option.splits)
qed

text \<open>A second registration of \<open>alice1\<close>, with another password and another address.\<close>

theorem duplicate_registration_rejected_witness:
  "route (example_request POST_users None
            [''Username'' \<mapsto> ''alice1'', ''Password'' \<mapsto> ''other'', ''Email'' \<mapsto> ''a2@example.com''])
     = POST_users
   \<and> ''alice1'' \<in> Username ` set (Users example_db)
   \<and> validationResult example_env (example_request POST_users None
            [''Username'' \<mapsto> ''alice1'', ''Password'' \<mapsto> ''other'', ''Email'' \<mapsto> ''a2@example.com''])
       = []
   \<and> up example_db
   \<and> fst (handle example_env 2000 (example_request POST_users None
            [''Username'' \<mapsto> ''alice1'', ''Password'' \<mapsto> ''other'', ''Email'' \<mapsto> ''a2@example.com''])
          example_db)
       = res 400 (Text ''alice1 already exists'')
   \<and> Users (snd (handle example_env 2000 (example_request POST_users None
            [''Username'' \<mapsto> ''alice1'', ''Password'' \<mapsto> ''other'', ''Email'' \<mapsto> ''a2@example.com''])
          example_db))
       = [alice]"
proof -
  let ?req = "example_request POST_users None
     [''Username'' \<mapsto> ''alice1'', ''Password'' \<mapsto> ''other'', ''Email'' \<mapsto> ''a2@example.com'']"
  have r: "route ?req = POST_users" by (simp add: example_request_def)
  have u: "reqbody ?req ''Username'' = Some ''alice1''" by (simp add: example_request_def)
  have p: "reqbody ?req ''Password'' \<noteq> None" by (simp add: example_request_def)
  have present: "''alice1'' \<in> Username ` set (Users example_db)"
    by (simp add: example_db_def alice_def)
  have ok: "validationResult example_env ?req = []"
    by (simp add: validationResult_def check_def select_instances_def example_request_def
        toString_def isLength_min_def isAlphanumeric_def isDigit_def isUpper_def isLower_def
        isEmpty_def example_env_def toLowerCase_def)
  have up: "up example_db" "Users example_db = [alice]" by (simp_all add: example_db_def)
  from duplicate_registration_rejected [OF r u present, of example_env 2000] ok p up
  have "fst (handle example_env 2000 ?req example_db) = res 400 (Text ''alice1 already exists'')"
    and "Users (snd (handle example_env 2000 ?req example_db)) = [alice]"
    by simp_all
  with r present ok up show ?thesis by simp
qed

subsection \<open>Updating a user\<close>

text \<open>
  C1, as stated, fails: a body that holds a subset of the fields, here a valid Email
  alone, is answered 422 although nothing it supplies is invalid, because the Password
  check finds no Password.
\<close>

theorem partial_update_rejected:
  "jwt_verified example_env 2000
     (example_request (PUT_user ''alice1'') (Some alice_token) [''Email'' \<mapsto> ''alice@example.com''])
   \<and> isEmail example_env ''alice@example.com''
   \<and> status (fst (handle example_env 2000
        (example_request (PUT_user ''alice1'') (Some alice_token)
           [''Email'' \<mapsto> ''alice@example.com''])
        example_db)) = 422
   \<and> snd (handle example_env 2000
        (example_request (PUT_user ''alice1'') (Some alice_token)
           [''Email'' \<mapsto> ''alice@example.com''])
        example_db) = example_db"
proof -
  let ?req = "example_request (PUT_user ''alice1'') (Some alice_token)
                [''Email'' \<mapsto> ''alice@example.com'']"
  have v: "jwt_verified example_env 2000 ?req" by (simp add: alice_request_verified)
  have r: "route ?req = PUT_user ''alice1''" by (simp add: example_request_def)
  have errs: "validationResult example_env ?req =
      [\<lparr>err_value = None, err_msg = ''Password is required'', err_param = ''Password'',
         err_location = ''body''\<rparr>]"
    by (simp add: validationResult_def check_def select_instances_def example_request_def
        toString_def isLength_min_def isAlphanumeric_def isDigit_def isUpper_def isLower_def
        isEmpty_def example_env_def toLowerCase_def)
  have "handle example_env 2000 ?req example_db
          = (validation_failed (validationResult example_env ?req), example_db)"
    using v r by (simp add: handle_def passport_authenticate_jwt_def put_user_def errs)
  moreover have "isEmail example_env ''alice@example.com''" by (simp add: example_env_def)
  ultimately show ?thesis
    using v by (simp add: validation_failed_def res_def)
qed

text \<open>
  C1, amended. On \<open>PUT /users/:Username\<close> with a verified token the four checks read the
  Username of the path as well as the fields of the body.

  The answer is 422 with the errors of the checks, and the store is untouched, when the
  path's Username has fewer than 5 characters or is not made of letters and digits, when
  the body has an empty Password or an invalid Email, when the request has no Password or
  no Email in any location, and whenever a check fails otherwise.

  The answer is 201 with the record after the update when the path's Username is valid,
  the body's Username is valid if the body has one, the body has a Password that is not
  empty and a valid Email, neither the headers nor the query have one of these fields,
  the body's Birthday is a date if the body has one, the store answers and the user of
  the path exists. In that record the Password is the hash of the new one and the Email
  is the new one; the Username is the body's if the body has one and the old one
  otherwise; the Birthday is the date of the body's if the body has one that is not empty
  and the old one otherwise; the identifier and the favorites are the old ones. No other
  user changes.
\<close>

theorem update_user_checked:
  assumes v: "jwt_verified env now req" and r: "route req = PUT_user uname"
  shows "(\<not> isLength_min 5 uname \<or> \<not> isAlphanumeric uname
            \<or> violates req ''Password'' (\<lambda>s. \<not> isEmpty s) \<or> violates req ''Email'' (isEmail env)
            \<or> validationResult env req \<noteq> [] \<longrightarrow>
          validationResult env req \<noteq> []
          \<and> handle env now req d =
              (res 422 (Json (JObj [(''errors'',
                                     JArr (map verror_toJSON (validationResult env req)))])), d))
       \<and> (isLength_min 5 uname \<and> isAlphanumeric uname
            \<and> (case reqbody req ''Username'' of
                  None \<Rightarrow> True
                | Some n \<Rightarrow> isLength_min 5 n \<and> isAlphanumeric n)
            \<and> reqbody req ''Password'' = Some pw \<and> pw \<noteq> []
            \<and> reqbody req ''Email'' = Some e \<and> e \<noteq> [] \<and> isEmail env e
            \<and> reqheaders req ''username'' = None \<and> reqquery req ''Username'' = None
            \<and> reqheaders req ''password'' = None \<and> reqquery req ''Password'' = None
            \<and> reqheaders req ''email'' = None \<and> reqquery req ''Email'' = None
            \<and> (case reqbody req ''Birthday'' of
                  None \<Rightarrow> birthday = Birthday u
                | Some b \<Rightarrow> if b = [] then birthday = Birthday u
                            else castDate env b \<noteq> None \<and> birthday = castDate env b)
            \<and> up d
            \<and> find (\<lambda>x. Username x = uname) (Users d) = Some u \<longrightarrow>
          (let u' = u\<lparr>Username := (case reqbody req ''Username'' of
                                       None \<Rightarrow> Username u
                                     | Some n \<Rightarrow> n),
                      Password := hashPassword env pw,
                      Email := e,
                      Birthday := birthday\<rparr>
           in handle env now req d =
                (res 201 (Json (JObj (user_toJSON u'))),
                 (request_op UsersFindOneAndUpdate d)
                   \<lparr>Users := update_first (\<lambda>x. Username x = uname) (\<lambda>_. u') (Users d)\<rparr>)))"
proof -
  have h: "handle env now req d = put_user env uname req d"
    using v r by (simp add: handle_def passport_authenticate_jwt_def)
  have p: "params (route req) ''Username'' = Some uname"
    "params (route req) ''Password'' = None" "params (route req) ''Email'' = None"
    using r by simp_all
  have bad: "validationResult env req \<noteq> []"
    if "\<not> isLength_min 5 uname \<or> \<not> isAlphanumeric uname
        \<or> violates req ''Password'' (\<lambda>s. \<not> isEmpty s) \<or> violates req ''Email'' (isEmail env)
        \<or> validationResult env req \<noteq> []"
  proof -
    from that consider "\<not> isLength_min 5 uname" | "\<not> isAlphanumeric uname"
      | "violates req ''Password'' (\<lambda>s. \<not> isEmpty s)" | "violates req ''Email'' (isEmail env)"
      | "validationResult env req \<noteq> []"
      by blast
    then show ?thesis
    proof cases
      case 1
      with p(1) check_param_value [of req "''Username''" uname "isLength_min 5"
          "''Username is required''"]
      show ?thesis by (auto simp: validationResult_def)
    next
      case 2
      with p(1) check_param_value [of req "''Username''" uname isAlphanumeric
          "''Username contains non alphanumeric characters - not allowed.''"]
      show ?thesis by (auto simp: validationResult_def)
    next
      case 3
      from violates_reported [of req "''Password''" "\<lambda>s. \<not> isEmpty s" "''Password is required''"] 3
      show ?thesis by (auto simp: validationResult_def)
    next
      case 4
      from violates_reported [of req "''Email''" "isEmail env" "''Email does not appear to be valid''"] 4
      show ?thesis by (auto simp: validationResult_def)
    next
      case 5
      then show ?thesis .
    qed
  qed
  have rejected: "handle env now req d =
              (res 422 (Json (JObj [(''errors'',
                                     JArr (map verror_toJSON (validationResult env req)))])), d)"
    if "validationResult env req \<noteq> []"
    using that by (simp add: h put_user_def validation_failed_def)
  have updated: "handle env now req d =
                (res 201 (Json (JObj (user_toJSON u'))),
                 (request_op UsersFindOneAndUpdate d)
                   \<lparr>Users := update_first (\<lambda>x. Username x = uname) (\<lambda>_. u') (Users d)\<rparr>)"
    if path: "isLength_min 5 uname" "isAlphanumeric uname"
      and name: "case reqbody req ''Username'' of
                   None \<Rightarrow> True
                 | Some n \<Rightarrow> isLength_min 5 n \<and> isAlphanumeric n"
      and pw: "reqbody req ''Password'' = Some pw" "pw \<noteq> []"
      and e: "reqbody req ''Email'' = Some e" "e \<noteq> []" and mail: "isEmail env e"
      and nowhere_else:
        "reqheaders req ''username'' = None" "reqquery req ''Username'' = None"
        "reqheaders req ''password'' = None" "reqquery req ''Password'' = None"
        "reqheaders req ''email'' = None" "reqquery req ''Email'' = None"
      and bday: "case reqbody req ''Birthday'' of
                  None \<Rightarrow> birthday = Birthday u
                | Some b \<Rightarrow> if b = [] then birthday = Birthday u
                            else castDate env b \<noteq> None \<and> birthday = castDate env b"
      and up: "up d"
      and u: "find (\<lambda>x. Username x = uname) (Users d) = Some u"
      and u': "u' = u\<lparr>Username := (case reqbody req ''Username'' of
                                       None \<Rightarrow> Username u
                                     | Some n \<Rightarrow> n),
                      Password := hashPassword env pw,
                      Email := e,
                      Birthday := birthday\<rparr>"
    for u'
  proof -
    have c1: "check req ''Username'' ''Username is required'' (isLength_min 5) = []"
      using nowhere_else path name p
      by (intro check_passes) (simp_all add: lower_fields split: option.splits)
    have c2: "check req ''Username''
                ''Username contains non alphanumeric characters - not allowed.'' isAlphanumeric = []"
      using nowhere_else path name p
      by (intro check_passes) (simp_all add: lower_fields split: option.splits)
    have c3: "check req ''Password'' ''Password is required'' (\<lambda>s. \<not> isEmpty s) = []"
      using nowhere_else pw p
      by (intro check_passes) (simp_all add: lower_fields isEmpty_def)
    have c4: "check req ''Email'' ''Email does not appear to be valid'' (isEmail env) = []"
      using nowhere_else e mail p
      by (intro check_passes) (simp_all add: lower_fields)
    have ok: "validationResult env req = []"
      by (simp add: validationResult_def c1 c2 c3 c4)
    have n_ne: "n \<noteq> []" if "reqbody req ''Username'' = Some n" for n
      using name that by (auto simp: isLength_min_def)
    obtain date where cast:
      "cast_Birthday env (build_updateObj req (hashPassword env pw) ''Birthday'') = Inr date"
      and date: "(case reqbody req ''Birthday'' of
                    None \<Rightarrow> Birthday u
                  | Some b \<Rightarrow> if b = [] then Birthday u else date) = birthday"
      using bday
      by (cases "reqbody req ''Birthday''")
         (auto simp: build_updateObj_Birthday cast_Birthday_def split: if_splits)
    have sf: "set_fields (build_updateObj req (hashPassword env pw)) date u = u'"
      unfolding u' using set_fields_build_updateObj [OF pw e n_ne, of "hashPassword env pw" date u]
      by (simp only: date)
    have uf: "update_first (\<lambda>x. Username x = uname)
                (set_fields (build_updateObj req (hashPassword env pw)) date) (Users d)
              = update_first (\<lambda>x. Username x = uname) (\<lambda>_. u') (Users d)"
      using update_first_const [OF u,
          of "set_fields (build_updateObj req (hashPassword env pw)) date"]
      by (simp only: sf)
    show ?thesis
      using ok pw up u
      by (simp add: h put_user_def Users_findOneAndUpdate_set_def cast Users_findOneAndUpdate_def
          Let_def json_of_user_def sf uf)
  qed
  from bad rejected updated show ?thesis unfolding Let_def by blast
qed

text \<open>
  Three updates with the token of \<open>alice1\<close>. The first names \<open>alice1\<close> in the path and has
  a new Password, a new Email and a Birthday in its body, and no Username: the check of
  the Username is met by the path. The second has the same body and names \<open>al\<close> in the
  path. The third has no Password.
\<close>

theorem update_user_checked_witness:
  "jwt_verified example_env 2000
     (example_request (PUT_user ''alice1'') (Some alice_token)
        [''Password'' \<mapsto> ''newpw'', ''Email'' \<mapsto> ''a2@example.com'', ''Birthday'' \<mapsto> ''1990-01-31''])
   \<and> isLength_min 5 ''alice1'' \<and> isAlphanumeric ''alice1''
   \<and> isEmail example_env ''a2@example.com''
   \<and> castDate example_env ''1990-01-31'' = Some ''1990-01-31T00:00:00.000Z''
   \<and> find (\<lambda>x. Username x = ''alice1'') (Users example_db) = Some alice
   \<and> handle example_env 2000
        (example_request (PUT_user ''alice1'') (Some alice_token)
           [''Password'' \<mapsto> ''newpw'', ''Email'' \<mapsto> ''a2@example.com'',
            ''Birthday'' \<mapsto> ''1990-01-31''])
        example_db
      = (res 201 (Json (JObj (user_toJSON
                   (alice\<lparr>Password := ''hashed:newpw'', Email := ''a2@example.com'',
                           Birthday := Some ''1990-01-31T00:00:00.000Z''\<rparr>)))),
         example_db\<lparr>Users := [alice\<lparr>Password := ''hashed:newpw'', Email := ''a2@example.com'',
                                     Birthday := Some ''1990-01-31T00:00:00.000Z''\<rparr>],
                    oplog := [UsersFindOneAndUpdate]\<rparr>)
   \<and> \<not> isLength_min 5 ''al''
   \<and> status (fst (handle example_env 2000
        (example_request (PUT_user ''al'') (Some alice_token)
           [''Password'' \<mapsto> ''newpw'', ''Email'' \<mapsto> ''a2@example.com'',
            ''Birthday'' \<mapsto> ''1990-01-31''])
        example_db)) = 422
   \<and> violates (example_request (PUT_user ''alice1'') (Some alice_token)
                 [''Username'' \<mapsto> ''alice2'', ''Email'' \<mapsto> ''a2@example.com''])
        ''Password'' (\<lambda>s. \<not> isEmpty s)
   \<and> status (fst (handle example_env 2000
        (example_request (PUT_user ''alice1'') (Some alice_token)
           [''Username'' \<mapsto> ''alice2'', ''Email'' \<mapsto> ''a2@example.com''])
        example_db)) = 422"
proof -
  let ?body = "[''Password'' \<mapsto> ''newpw'', ''Email'' \<mapsto> ''a2@example.com'',
                ''Birthday'' \<mapsto> ''1990-01-31'']"
  let ?req = "example_request (PUT_user ''alice1'') (Some alice_token) ?body"
  let ?short = "example_request (PUT_user ''al'') (Some alice_token) ?body"
  let ?bad = "example_request (PUT_user ''alice1'') (Some alice_token)
     [''Username'' \<mapsto> ''alice2'', ''Email'' \<mapsto> ''a2@example.com'']"
  have v: "jwt_verified example_env 2000 ?req" "jwt_verified example_env 2000 ?short"
    "jwt_verified example_env 2000 ?bad"
    by (simp_all add: alice_request_verified)
  have r: "route ?req = PUT_user ''alice1''" "route ?short = PUT_user ''al''"
    "route ?bad = PUT_user ''alice1''"
    by (simp_all add: example_request_def)
  have path: "isLength_min 5 ''alice1''" "isAlphanumeric ''alice1''" "\<not> isLength_min 5 ''al''"
    by (simp_all add: isLength_min_def isAlphanumeric_def isDigit_def isUpper_def isLower_def)
  have mail: "isEmail example_env ''a2@example.com''" by (simp add: example_env_def)
  have date: "castDate example_env ''1990-01-31'' = Some ''1990-01-31T00:00:00.000Z''"
    by (simp add: example_env_def isDigit_def)
  have body: "reqbody ?req ''Password'' = Some ''newpw''"
    "reqbody ?req ''Email'' = Some ''a2@example.com''"
    "reqbody ?req ''Username'' = None" "reqbody ?req ''Birthday'' = Some ''1990-01-31''"
    "reqheaders ?req = Map.empty" "reqquery ?req = Map.empty"
    by (simp_all add: example_request_def)
  have u: "find (\<lambda>x. Username x = ''alice1'') (Users example_db) = Some alice"
    by (simp add: example_db_def alice_def)
  have up: "up example_db" by (simp add: example_db_def)
  have viol: "violates ?bad ''Password'' (\<lambda>s. \<not> isEmpty s)"
    by (simp add: violates_def example_request_def isEmpty_def toLowerCase_def)
  from update_user_checked [OF v(1) r(1), of example_db "''newpw''" "''a2@example.com''"
      "Some ''1990-01-31T00:00:00.000Z''" alice]
    path mail date body u up
  have 1: "handle example_env 2000 ?req example_db
      = (res 201 (Json (JObj (user_toJSON
                   (alice\<lparr>Password := ''hashed:newpw'', Email := ''a2@example.com'',
                           Birthday := Some ''1990-01-31T00:00:00.000Z''\<rparr>)))),
         example_db\<lparr>Users := [alice\<lparr>Password := ''hashed:newpw'', Email := ''a2@example.com'',
                                     Birthday := Some ''1990-01-31T00:00:00.000Z''\<rparr>],
                    oplog := [UsersFindOneAndUpdate]\<rparr>)"
    by (simp add: Let_def example_db_def alice_def request_op_def example_env_def)
  from update_user_checked [OF v(2) r(2), of example_db] path(3)
  have 2: "status (fst (handle example_env 2000 ?short example_db)) = 422"
    by (simp add: res_def)
  from update_user_checked [OF v(3) r(3), of example_db] viol
  have 3: "status (fst (handle example_env 2000 ?bad example_db)) = 422"
    by (simp add: res_def)
  from v(1) path mail date u viol 1 2 3 show ?thesis by simp
qed

subsection \<open>Favorites\<close>

text \<open>
  C7. Removing a movie identifier that is not among the favorites of the user named in
  the path is answered 200 with the user's record as it was, and leaves the users of the
  store, hence the list of favorites, unchanged.
\<close>

theorem remove_absent_favorite:
  assumes v: "jwt_verified env now req"
    and r: "route req = DELETE_favorite uname m"
    and up: "up d"
    and u: "find (\<lambda>x. Username x = uname) (Users d) = Some u"
    and absent: "m \<notin> set (FavoriteMovies u)"
  shows "fst (handle env now req d) = res 200 (Json (JObj (user_toJSON u)))
         \<and> Users (snd (handle env now req d)) = Users d"
  using assms
  by (simp add: handle_def passport_authenticate_jwt_def delete_favorite_def
      Users_findOneAndUpdate_def json_of_user_def pull_favorite_absent update_first_fixed Let_def)

theorem remove_absent_favorite_witness:
  "jwt_verified example_env 2000
     (example_request (DELETE_favorite ''alice1'' ''zzz999'') (Some alice_token) Map.empty)
   \<and> up example_db
   \<and> find (\<lambda>x. Username x = ''alice1'') (Users example_db) = Some alice
   \<and> ''zzz999'' \<notin> set (FavoriteMovies alice)
   \<and> fst (handle example_env 2000
        (example_request (DELETE_favorite ''alice1'' ''zzz999'') (Some alice_token) Map.empty)
        example_db) = res 200 (Json (JObj (user_toJSON alice)))
   \<and> Users (snd (handle example_env 2000
        (example_request (DELETE_favorite ''alice1'' ''zzz999'') (Some alice_token) Map.empty)
        example_db)) = [alice]"
proof -
  let ?req = "example_request (DELETE_favorite ''alice1'' ''zzz999'') (Some alice_token) Map.empty"
  have v: "jwt_verified example_env 2000 ?req" by (simp add: alice_request_verified)
  have r: "route ?req = DELETE_favorite ''alice1'' ''zzz999''" by (simp add: example_request_def)
  have up: "up example_db" by (simp add: example_db_def)
  have u: "find (\<lambda>x. Username x = ''alice1'') (Users example_db) = Some alice"
    by (simp add: example_db_def alice_def)
  have absent: "''zzz999'' \<notin> set (FavoriteMovies alice)" by (simp add: alice_def)
  have users: "Users example_db = [alice]" by (simp add: example_db_def)
  from remove_absent_favorite [OF v r up u absent] v up u absent users show ?thesis by simp
qed

text \<open>
  C10. Adding or removing a favorite for a Username that no user has is answered 200
  with the body \<open>null\<close>, and the users of the store stay as they are.
\<close>

theorem favorite_of_unknown_user:
  assumes v: "jwt_verified env now req"
    and r: "route req = POST_favorite uname m \<or> route req = DELETE_favorite uname m"
    and up: "up d"
    and nouser: "uname \<notin> Username ` set (Users d)"
  shows "fst (handle env now req d) = res 200 (Json JNull)
         \<and> Users (snd (handle env now req d)) = Users d"
proof -
  from nouser have "find (\<lambda>x. Username x = uname) (Users d) = None"
    by (auto simp: find_None_iff)
  then show ?thesis using v r up
    by (auto simp: handle_def passport_authenticate_jwt_def delete_favorite_def post_favorite_def
        Users_findOneAndUpdate_def json_of_user_def update_first_no_match Let_def)
qed

theorem favorite_of_unknown_user_witness:
  "jwt_verified example_env 2000
     (example_request (POST_favorite ''nobody'' ''abc123'') (Some alice_token) Map.empty)
   \<and> jwt_verified example_env 2000
     (example_request (DELETE_favorite ''nobody'' ''abc123'') (Some alice_token) Map.empty)
   \<and> up example_db
   \<and> ''nobody'' \<notin> Username ` set (Users example_db)
   \<and> fst (handle example_env 2000
        (example_request (POST_favorite ''nobody'' ''abc123'') (Some alice_token) Map.empty)
        example_db) = res 200 (Json JNull)
   \<and> fst (handle example_env 2000
        (example_request (DELETE_favorite ''nobody'' ''abc123'') (Some alice_token) Map.empty)
        example_db) = res 200 (Json JNull)"
proof -
  let ?add = "example_request (POST_favorite ''nobody'' ''abc123'') (Some alice_token) Map.empty"
  let ?del = "example_request (DELETE_favorite ''nobody'' ''abc123'') (Some alice_token) Map.empty"
  have v: "jwt_verified example_env 2000 ?add" "jwt_verified example_env 2000 ?del"
    by (simp_all add: alice_request_verified)
  have r: "route ?add = POST_favorite ''nobody'' ''abc123''"
    "route ?del = DELETE_favorite ''nobody'' ''abc123''"
    by (simp_all add: example_request_def)
  have up: "up example_db" by (simp add: example_db_def)
  have nouser: "''nobody'' \<notin> Username ` set (Users example_db)"
    by (simp add: example_db_def alice_def)
  from favorite_of_unknown_user [OF v(1) _ up nouser, of "''abc123''"] r(1)
  have a: "fst (handle example_env 2000 ?add example_db) = res 200 (Json JNull)" by simp
  from favorite_of_unknown_user [OF v(2) _ up nouser, of "''abc123''"] r(2)
  have b: "fst (handle example_env 2000 ?del example_db) = res 200 (Json JNull)" by simp
  from a b v up nouser show ?thesis by simp
qed

subsection \<open>Directors\<close>

text \<open>
  C6. \<open>GET /directors/Nobody\<close>, with a verified token and no movie by a director of that
  name in the store: the answer is the 500 error of the \<open>catch\<close> branch, not an empty
  result.
\<close>

theorem director_not_found_is_error:
  "find (\<lambda>m. Name (Director m) = ''Nobody'') (Movies example_db) = None
   \<and> handle example_env 2000
        (example_request (GET_director ''Nobody'') (Some alice_token) Map.empty) example_db
      = (res 500 (ErrorText TypeError), request_op MoviesFindOne example_db)"
proof -
  let ?req = "example_request (GET_director ''Nobody'') (Some alice_token) Map.empty"
  have v: "jwt_verified example_env 2000 ?req" by (simp add: alice_request_verified)
  have r: "route ?req = GET_director ''Nobody''" by (simp add: example_request_def)
  have none: "find (\<lambda>m. Name (Director m) = ''Nobody'') (Movies example_db) = None"
    by (simp add: example_db_def psycho_def)
  have up: "up example_db" by (simp add: example_db_def)
  from v r none up show ?thesis
    by (simp add: handle_def passport_authenticate_jwt_def get_director_def Movies_findOne_def)
qed

subsection \<open>Login\<close>

text \<open>
  C8. A login that fails because no user has the Username, or because the Password does
  not match the stored hash, gets one and the same answer in both cases: 400 with the
  message \<open>Something is not right\<close> and \<open>user: false\<close>. The answer carries no token and
  the users of the store stay as they are.
\<close>

theorem failed_login_generic:
  assumes r: "route req = POST_login" and up: "up d"
    and cu: "credential req ''Username'' = Some uname"
    and cp: "credential req ''Password'' = Some pw"
    and fails: "find (\<lambda>x. Username x = uname) (Users d) = None
                \<or> (\<exists>usr. find (\<lambda>x. Username x = uname) (Users d) = Some usr
                          \<and> \<not> validatePassword env pw (Password usr))"
  shows "fst (handle env now req d)
           = res 400 (Json (JObj [(''message'', JStr ''Something is not right''),
                                  (''user'', JBool False)]))
         \<and> Users (snd (handle env now req d)) = Users d"
  using assms
  by (auto simp: handle_def login_def passport_authenticate_local_def local_strategy_def
      Users_findOne_def request_op_def)

text \<open>An unknown Username, and a wrong Password for \<open>alice1\<close>: the same answer.\<close>

theorem failed_login_generic_witness:
  "find (\<lambda>x. Username x = ''nobody'') (Users example_db) = None
   \<and> find (\<lambda>x. Username x = ''alice1'') (Users example_db) = Some alice
   \<and> \<not> validatePassword example_env ''wrong'' (Password alice)
   \<and> fst (handle example_env 2000
        ((example_request POST_login None Map.empty)
           \<lparr>reqquery := [''Username'' \<mapsto> ''nobody'', ''Password'' \<mapsto> ''secret123'']\<rparr>)
        example_db)
      = res 400 (Json (JObj [(''message'', JStr ''Something is not right''),
                             (''user'', JBool False)]))
   \<and> fst (handle example_env 2000
        ((example_request POST_login None Map.empty)
           \<lparr>reqquery := [''Username'' \<mapsto> ''alice1'', ''Password'' \<mapsto> ''wrong'']\<rparr>)
        example_db)
      = res 400 (Json (JObj [(''message'', JStr ''Something is not right''),
                             (''user'', JBool False)]))"
proof -
  let ?a = "(example_request POST_login None Map.empty)
              \<lparr>reqquery := [''Username'' \<mapsto> ''nobody'', ''Password'' \<mapsto> ''secret123'']\<rparr>"
  let ?b = "(example_request POST_login None Map.empty)
              \<lparr>reqquery := [''Username'' \<mapsto> ''alice1'', ''Password'' \<mapsto> ''wrong'']\<rparr>"
  have r: "route ?a = POST_login" "route ?b = POST_login" by (simp_all add: example_request_def)
  have up: "up example_db" by (simp add: example_db_def)
  have ca: "credential ?a ''Username'' = Some ''nobody''"
    "credential ?a ''Password'' = Some ''secret123''"
    by (simp_all add: credential_def example_request_def)
  have cb: "credential ?b ''Username'' = Some ''alice1''"
    "credential ?b ''Password'' = Some ''wrong''"
    by (simp_all add: credential_def example_request_def)
  have none: "find (\<lambda>x. Username x = ''nobody'') (Users example_db) = None"
    by (simp add: example_db_def alice_def)
  have some: "find (\<lambda>x. Username x = ''alice1'') (Users example_db) = Some alice"
    by (simp add: example_db_def alice_def)
  have wrong: "\<not> validatePassword example_env ''wrong'' (Password alice)"
    by (simp add: example_env_def alice_def)
  from failed_login_generic [OF r(1) up ca, of example_env 2000] none
  have a: "fst (handle example_env 2000 ?a example_db)
      = res 400 (Json (JObj [(''message'', JStr ''Something is not right''),
                             (''user'', JBool False)]))"
    by simp
  from failed_login_generic [OF r(2) up cb, of example_env 2000] some wrong
  have b: "fst (handle example_env 2000 ?b example_db)
      = res 400 (Json (JObj [(''message'', JStr ''Something is not right''),
                             (''user'', JBool False)]))"
    by simp
  from none some wrong a b show ?thesis by simp
qed

text \<open>
  C9. A successful login answers 200 with the token that \<open>generateJWTToken\<close> makes of the
  stored user. Every field of the stored record is a claim of that token, the stored
  Password hash among them.
\<close>

theorem login_token_carries_record:
  assumes r: "route req = POST_login" and up: "up d"
    and cu: "credential req ''Username'' = Some uname" and "uname \<noteq> []"
    and cp: "credential req ''Password'' = Some pw" and "pw \<noteq> []"
    and u: "find (\<lambda>x. Username x = uname) (Users d) = Some u"
    and ok: "validatePassword env pw (Password u)"
  shows "fst (handle env now req d)
           = res 200 (JsonLogin (generateJWTToken env now u)
               (JObj [(''Username'', JStr (xss env (Username u))),
                      (''FavoriteMovies'', JArr (map JStr (FavoriteMovies u))),
                      (''Email'', JStr (xss env (Email u))),
                      (''Birthday'', JStr (xss env (toString (Birthday u))))]))
         \<and> set (user_toJSON u) \<subseteq> set (payload (generateJWTToken env now u))
         \<and> map_of (payload (generateJWTToken env now u)) ''Password'' = Some (JStr (Password u))"
proof -
  have "fst (handle env now req d)
           = res 200 (JsonLogin (generateJWTToken env now u)
               (JObj [(''Username'', JStr (xss env (Username u))),
                      (''FavoriteMovies'', JArr (map JStr (FavoriteMovies u))),
                      (''Email'', JStr (xss env (Email u))),
                      (''Birthday'', JStr (xss env (toString (Birthday u))))]))"
    using assms
    by (simp add: handle_def login_def passport_authenticate_local_def local_strategy_def
        Users_findOne_def request_op_def)
  moreover have "set (user_toJSON u) \<subseteq> set (payload (generateJWTToken env now u))"
    by (simp add: generateJWTToken_def jwt_sign_def Let_def) blast
  moreover have "map_of (payload (generateJWTToken env now u)) ''Password''
                   = Some (JStr (Password u))"
    by (simp add: generateJWTToken_def jwt_sign_def Let_def map_add_def user_toJSON_Password)
  ultimately show ?thesis by blast
qed

text \<open>The login of \<open>alice1\<close>: her token carries her stored hash.\<close>

theorem login_token_carries_record_witness:
  "up example_db
   \<and> find (\<lambda>x. Username x = ''alice1'') (Users example_db) = Some alice
   \<and> validatePassword example_env ''secret123'' (Password alice)
   \<and> fst (handle example_env 2000
        ((example_request POST_login None Map.empty)
           \<lparr>reqquery := [''Username'' \<mapsto> ''alice1'', ''Password'' \<mapsto> ''secret123'']\<rparr>)
        example_db)
      = res 200 (JsonLogin (generateJWTToken example_env 2000 alice)
          (JObj [(''Username'', JStr ''alice1''),
                 (''FavoriteMovies'', JArr [JStr ''abc123'']),
                 (''Email'', JStr ''alice@example.com''),
                 (''Birthday'', JStr [])]))
   \<and> map_of (payload (generateJWTToken example_env 2000 alice)) ''Password''
      = Some (JStr ''hashed:secret123'')"
proof -
  let ?req = "(example_request POST_login None Map.empty)
                \<lparr>reqquery := [''Username'' \<mapsto> ''alice1'', ''Password'' \<mapsto> ''secret123'']\<rparr>"
  have r: "route ?req = POST_login" by (simp add: example_request_def)
  have up: "up example_db" by (simp add: example_db_def)
  have cu: "credential ?req ''Username'' = Some ''alice1''"
    and cp: "credential ?req ''Password'' = Some ''secret123''"
    by (simp_all add: credential_def example_request_def)
  have u: "find (\<lambda>x. Username x = ''alice1'') (Users example_db) = Some alice"
    by (simp add: example_db_def alice_def)
  have ok: "validatePassword example_env ''secret123'' (Password alice)"
    by (simp add: example_env_def alice_def)
  have fields: "xss example_env (Username alice) = ''alice1''"
    "FavoriteMovies alice = [''abc123'']"
    "xss example_env (Email alice) = ''alice@example.com''"
    "xss example_env (toString (Birthday alice)) = []"
    "Password alice = ''hashed:secret123''"
    by (simp_all add: example_env_def alice_def toString_def)
  from login_token_carries_record [OF r up cu _ cp _ u ok, of 2000] up u ok
  show ?thesis by (simp add: fields)
qed

subsection \<open>The life of a token\<close>

text \<open>
  C3, as stated, fails at the instant of the expiry: the token issued for \<open>alice1\<close> at
  the time 1000 is refused by \<open>GET /movies\<close> at the time 1000 + 604800, seven days later
  to the second, which is not after \<open>T + 7 days\<close>.
\<close>

theorem token_refused_at_expiry:
  "handle example_env (1000 + 604800)
     (example_request GET_movies (Some (generateJWTToken example_env 1000 alice)) Map.empty)
     example_db
   = (res 401 (Text ''Unauthorized''), example_db)"
proof -
  have "\<not> verifyToken example_env (1000 + 604800) (generateJWTToken example_env 1000 alice)"
    by (simp add: verifyToken_generateJWTToken seven_days_def)
  then show ?thesis
    by (simp add: handle_def passport_authenticate_jwt_def jwt_verified_def example_request_def)
qed

text \<open>
  C3, amended. The token issued at the time \<open>T\<close> (in seconds) for a user has the user's
  Username as its subject, is signed with HS256 under the server's secret, and expires at
  \<open>T + 604800\<close>, seven days later. At every time before the expiry each protected route
  runs its handler for a request that bears this token; at the expiry and at every time
  after it each protected route answers 401 and leaves the store as it was; and so it
  does at any time when the signature has been replaced by another one.
\<close>

theorem token_lifecycle:
  "map_of (payload (generateJWTToken env T u)) ''sub'' = Some (JStr (Username u))
   \<and> alg (generateJWTToken env T u) = ''HS256''
   \<and> signature (generateJWTToken env T u)
       = HS256 env jwtSecret (payload (generateJWTToken env T u))
   \<and> map_of (payload (generateJWTToken env T u)) ''exp'' = Some (JNum (int (T + 604800)))
   \<and> (\<forall>t req d. bearer req = Some (generateJWTToken env T u) \<and> t < T + 604800 \<longrightarrow>
         (route req = GET_movies \<longrightarrow> handle env t req d = get_movies d)
         \<and> (\<forall>m. route req = GET_movie m \<longrightarrow> handle env t req d = get_movie m d)
         \<and> (\<forall>g. route req = GET_movies_genre g \<longrightarrow> handle env t req d = get_movies_genre g d)
         \<and> (\<forall>n. route req = GET_director n \<longrightarrow> handle env t req d = get_director n d)
         \<and> (\<forall>n. route req = PUT_user n \<longrightarrow> handle env t req d = put_user env n req d)
         \<and> (\<forall>n m. route req = POST_favorite n m \<longrightarrow> handle env t req d = post_favorite n m d)
         \<and> (\<forall>n m. route req = DELETE_favorite n m \<longrightarrow>
                handle env t req d = delete_favorite n m d)
         \<and> (\<forall>n. route req = GET_favorites n \<longrightarrow> handle env t req d = get_favorites n d)
         \<and> (\<forall>n. route req = DELETE_user n \<longrightarrow> handle env t req d = delete_user n d))
   \<and> (\<forall>t req d. bearer req = Some (generateJWTToken env T u) \<and> T + 604800 \<le> t
         \<and> route req \<noteq> POST_users \<and> route req \<noteq> POST_login \<and> (\<forall>n. route req \<noteq> GET_user n) \<longrightarrow>
         handle env t req d = (res 401 (Text ''Unauthorized''), d))
   \<and> (\<forall>t s req d. s \<noteq> signature (generateJWTToken env T u)
         \<and> bearer req = Some ((generateJWTToken env T u)\<lparr>signature := s\<rparr>)
         \<and> route req \<noteq> POST_users \<and> route req \<noteq> POST_login \<and> (\<forall>n. route req \<noteq> GET_user n) \<longrightarrow>
         handle env t req d = (res 401 (Text ''Unauthorized''), d))"
proof -
  have days: "seven_days = 604800" by (simp add: seven_days_def)
  have sub: "map_of (payload (generateJWTToken env T u)) ''sub'' = Some (JStr (Username u))"
    by (simp add: generateJWTToken_def jwt_sign_def Let_def map_add_def user_toJSON_keys)
  have exp: "map_of (payload (generateJWTToken env T u)) ''exp'' = Some (JNum (int (T + 604800)))"
    using generateJWTToken_exp [of env T u] by (simp only: days)
  have closed: "handle env t req d = (res 401 (Text ''Unauthorized''), d)"
    if "\<not> jwt_verified env t req"
      "route req \<noteq> POST_users" "route req \<noteq> POST_login" "\<forall>n. route req \<noteq> GET_user n"
    for t req d
    using that by (cases "route req") (simp_all add: handle_def passport_authenticate_jwt_def)
  have valid: "jwt_verified env t req"
    if "bearer req = Some (generateJWTToken env T u)" "t < T + 604800" for t req
    using that by (simp add: jwt_verified_def verifyToken_generateJWTToken days)
  have accept:
    "(route req = GET_movies \<longrightarrow> handle env t req d = get_movies d)
     \<and> (\<forall>m. route req = GET_movie m \<longrightarrow> handle env t req d = get_movie m d)
     \<and> (\<forall>g. route req = GET_movies_genre g \<longrightarrow> handle env t req d = get_movies_genre g d)
     \<and> (\<forall>n. route req = GET_director n \<longrightarrow> handle env t req d = get_director n d)
     \<and> (\<forall>n. route req = PUT_user n \<longrightarrow> handle env t req d = put_user env n req d)
     \<and> (\<forall>n m. route req = POST_favorite n m \<longrightarrow> handle env t req d = post_favorite n m d)
     \<and> (\<forall>n m. route req = DELETE_favorite n m \<longrightarrow> handle env t req d = delete_favorite n m d)
     \<and> (\<forall>n. route req = GET_favorites n \<longrightarrow> handle env t req d = get_favorites n d)
     \<and> (\<forall>n. route req = DELETE_user n \<longrightarrow> handle env t req d = delete_user n d)"
    if "bearer req = Some (generateJWTToken env T u)" "t < T + 604800" for t req d
    using valid [OF that] by (simp add: handle_def passport_authenticate_jwt_def)
  have expired: "handle env t req d = (res 401 (Text ''Unauthorized''), d)"
    if "bearer req = Some (generateJWTToken env T u)" "T + 604800 \<le> t"
      "route req \<noteq> POST_users" "route req \<noteq> POST_login" "\<forall>n. route req \<noteq> GET_user n"
    for t req d
  proof -
    from that(1,2) have "\<not> jwt_verified env t req"
      by (simp add: jwt_verified_def verifyToken_generateJWTToken days)
    from closed [OF this that(3-5)] show ?thesis .
  qed
  have altered: "handle env t req d = (res 401 (Text ''Unauthorized''), d)"
    if "s \<noteq> signature (generateJWTToken env T u)"
      "bearer req = Some ((generateJWTToken env T u)\<lparr>signature := s\<rparr>)"
      "route req \<noteq> POST_users" "route req \<noteq> POST_login" "\<forall>n. route req \<noteq> GET_user n"
    for t s req d
  proof -
    from that(1,2) generateJWTToken_signed(2) [of env T u] have "\<not> jwt_verified env t req"
      by (simp add: jwt_verified_def verifyToken_def)
    from closed [OF this that(3-5)] show ?thesis .
  qed
  have acc: "\<forall>t req d. bearer req = Some (generateJWTToken env T u) \<and> t < T + 604800 \<longrightarrow>
         (route req = GET_movies \<longrightarrow> handle env t req d = get_movies d)
         \<and> (\<forall>m. route req = GET_movie m \<longrightarrow> handle env t req d = get_movie m d)
         \<and> (\<forall>g. route req = GET_movies_genre g \<longrightarrow> handle env t req d = get_movies_genre g d)
         \<and> (\<forall>n. route req = GET_director n \<longrightarrow> handle env t req d = get_director n d)
         \<and> (\<forall>n. route req = PUT_user n \<longrightarrow> handle env t req d = put_user env n req d)
         \<and> (\<forall>n m. route req = POST_favorite n m \<longrightarrow> handle env t req d = post_favorite n m d)
         \<and> (\<forall>n m. route req = DELETE_favorite n m \<longrightarrow>
                handle env t req d = delete_favorite n m d)
         \<and> (\<forall>n. route req = GET_favorites n \<longrightarrow> handle env t req d = get_favorites n d)
         \<and> (\<forall>n. route req = DELETE_user n \<longrightarrow> handle env t req d = delete_user n d)"
  proof (intro allI impI)
    fix t :: nat and req :: request and d :: db
    assume "bearer req = Some (generateJWTToken env T u) \<and> t < T + 604800"
    then have "bearer req = Some (generateJWTToken env T u)" "t < T + 604800" by simp_all
    then show "(route req = GET_movies \<longrightarrow> handle env t req d = get_movies d)
         \<and> (\<forall>m. route req = GET_movie m \<longrightarrow> handle env t req d = get_movie m d)
         \<and> (\<forall>g. route req = GET_movies_genre g \<longrightarrow> handle env t req d = get_movies_genre g d)
         \<and> (\<forall>n. route req = GET_director n \<longrightarrow> handle env t req d = get_director n d)
         \<and> (\<forall>n. route req = PUT_user n \<longrightarrow> handle env t req d = put_user env n req d)
         \<and> (\<forall>n m. route req = POST_favorite n m \<longrightarrow> handle env t req d = post_favorite n m d)
         \<and> (\<forall>n m. route req = DELETE_favorite n m \<longrightarrow>
                handle env t req d = delete_favorite n m d)
         \<and> (\<forall>n. route req = GET_favorites n \<longrightarrow> handle env t req d = get_favorites n d)
         \<and> (\<forall>n. route req = DELETE_user n \<longrightarrow> handle env t req d = delete_user n d)"
      by (rule accept)
  qed
  have expd: "\<forall>t req d. bearer req = Some (generateJWTToken env T u) \<and> T + 604800 \<le> t
         \<and> route req \<noteq> POST_users \<and> route req \<noteq> POST_login \<and> (\<forall>n. route req \<noteq> GET_user n) \<longrightarrow>
         handle env t req d = (res 401 (Text ''Unauthorized''), d)"
    by (intro allI impI, elim conjE) (rule expired)
  have alt: "\<forall>t s req d. s \<noteq> signature (generateJWTToken env T u)
         \<and> bearer req = Some ((generateJWTToken env T u)\<lparr>signature := s\<rparr>)
         \<and> route req \<noteq> POST_users \<and> route req \<noteq> POST_login \<and> (\<forall>n. route req \<noteq> GET_user n) \<longrightarrow>
         handle env t req d = (res 401 (Text ''Unauthorized''), d)"
    by (intro allI impI, elim conjE) (rule altered)
  note signed = generateJWTToken_signed [of env T u]
  show ?thesis
    by (rule conjI [OF sub conjI [OF signed(1) conjI [OF signed(2)
          conjI [OF exp conjI [OF acc conjI [OF expd alt]]]]]])
qed

text \<open>
  The token of \<open>alice1\<close>, issued at 1000: \<open>GET /movies\<close> lists the movies one second before
  the expiry at 605800, and answers 401 one second after it and with a forged signature.
\<close>

theorem token_lifecycle_witness:
  "bearer (example_request GET_movies (Some (generateJWTToken example_env 1000 alice)) Map.empty)
     = Some (generateJWTToken example_env 1000 alice)
   \<and> (605799::nat) < 1000 + 604800
   \<and> handle example_env 605799
        (example_request GET_movies (Some (generateJWTToken example_env 1000 alice)) Map.empty)
        example_db
      = (res 201 (Json (JArr [movie_toJSON psycho])), example_db\<lparr>oplog := [MoviesFind]\<rparr>)
   \<and> (1000::nat) + 604800 \<le> 605801
   \<and> handle example_env 605801
        (example_request GET_movies (Some (generateJWTToken example_env 1000 alice)) Map.empty)
        example_db
      = (res 401 (Text ''Unauthorized''), example_db)
   \<and> ''forged'' \<noteq> signature (generateJWTToken example_env 1000 alice)
   \<and> handle example_env 2000
        (example_request GET_movies
           (Some ((generateJWTToken example_env 1000 alice)\<lparr>signature := ''forged''\<rparr>)) Map.empty)
        example_db
      = (res 401 (Text ''Unauthorized''), example_db)"
proof -
  let ?tok = "generateJWTToken example_env 1000 alice"
  let ?req = "example_request GET_movies (Some ?tok) Map.empty"
  let ?forged = "example_request GET_movies (Some (?tok\<lparr>signature := ''forged''\<rparr>)) Map.empty"
  note life = token_lifecycle [of example_env 1000 alice]
  have b: "bearer ?req = Some ?tok" "bearer ?forged = Some (?tok\<lparr>signature := ''forged''\<rparr>)"
    by (simp_all add: example_request_def)
  have r: "route ?req = GET_movies" "route ?forged = GET_movies"
    by (simp_all add: example_request_def)
  have f: "''forged'' \<noteq> signature ?tok"
    by (simp add: generateJWTToken_def jwt_sign_def Let_def example_env_def jwtSecret_def)
  have movies: "get_movies example_db
      = (res 201 (Json (JArr [movie_toJSON psycho])), example_db\<lparr>oplog := [MoviesFind]\<rparr>)"
    by (simp add: get_movies_def Movies_find_def example_db_def request_op_def)
  from life b(1) r(1) have "handle example_env 605799 ?req example_db = get_movies example_db"
    by simp
  then have 1: "handle example_env 605799 ?req example_db
      = (res 201 (Json (JArr [movie_toJSON psycho])), example_db\<lparr>oplog := [MoviesFind]\<rparr>)"
    by (simp only: movies)
  from life b(1) r(1) have 2: "handle example_env 605801 ?req example_db
      = (res 401 (Text ''Unauthorized''), example_db)"
    by simp
  have three: "route ?forged \<noteq> POST_users" "route ?forged \<noteq> POST_login"
    "\<forall>n. route ?forged \<noteq> GET_user n"
    by (simp_all add: r)
  from life b(2) f three have 3: "handle example_env 2000 ?forged example_db
      = (res 401 (Text ''Unauthorized''), example_db)"
    by blast
  from b(1) f 1 2 3 show ?thesis by simp
qed

end
